theory Spec2Isabelle
  imports Complex_Main "HOL-Library.Product_Lexorder" "HOL-Library.Multiset"
begin

section \<open>The table of MOT test records\<close>

text \<open>
  The scripts \<^verbatim>\<open>main.py\<close> and \<^verbatim>\<open>.ipynb_checkpoints/main-checkpoint.py\<close> work on one
  pandas DataFrame bound to the global name \<^verbatim>\<open>df\<close>. A DataFrame is modelled as the list
  of its rows, in index order. A row is a record of the columns the scripts read; every
  other column of the file (postcode_area, make, model, colour, fuel_type and the derived
  columns) travels in the extension slot of the record, so every operation below is
  polymorphic in it and cannot touch it.

  A timestamp is the integer pandas stores for it, the nanoseconds since 1970-01-01
  (\<^verbatim>\<open>datetime64[ns]\<close>, a 64-bit integer); pandas' missing timestamp \<^verbatim>\<open>NaT\<close> is \<open>None\<close>. A
  cell of test_result holds a result code or, where the file's cell is empty, pandas'
  missing value, \<open>None\<close>. The identifier and class columns hold an integer and test_type
  a string in every row.
\<close>

record row =
  test_id :: int
  vehicle_id :: int
  test_date :: "int option"
  first_use_date :: "int option"
  test_type :: string
  test_result :: "string option"
  test_class_id :: int

type_synonym 'a frame = "'a row_scheme list"

section \<open>The two pandas calls of the deduplication statement\<close>

text \<open>
  \<^verbatim>\<open>sort_values(by="test_date")\<close> returns a new frame with the rows in ascending order of
  test_date, \<^verbatim>\<open>NaT\<close> last (pandas' default \<^verbatim>\<open>na_position="last"\<close>). The key below orders
  the dates that way. Rows with equal dates are left in their original order here; pandas
  itself does not promise an order among them with its default sorting algorithm.
\<close>

definition date_key :: "int option \<Rightarrow> nat \<times> int" where
  "date_key d = (case d of None \<Rightarrow> (1, 0) | Some t \<Rightarrow> (0, t))"

definition sort_values :: "'a frame \<Rightarrow> 'a frame" where
  "sort_values t = sort_key (\<lambda>r. date_key (test_date r)) t"

text \<open>
  \<^verbatim>\<open>drop_duplicates(subset="vehicle_id", keep="first")\<close> walks the rows in order and keeps
  a row exactly when no earlier row has its vehicle_id. \<open>seen\<close> holds the vehicle ids met
  so far.
\<close>

fun keep_first :: "int list \<Rightarrow> 'a frame \<Rightarrow> 'a frame" where
  "keep_first seen [] = []"
| "keep_first seen (r # rs) =
     (if vehicle_id r \<in> set seen then keep_first seen rs
      else r # keep_first (vehicle_id r # seen) rs)"

definition drop_duplicates :: "'a frame \<Rightarrow> 'a frame" where
  "drop_duplicates t = keep_first [] t"

section \<open>Objects and names: the deduplication statement\<close>

text \<open>
  The statement is
  \<^verbatim>\<open>df.sort_values(by="test_date").drop_duplicates(subset="vehicle_id", keep="first", inplace=True)\<close>
  (\<^verbatim>\<open>main.py\<close> line 60, the checkpoint's line 64). Whether it changes \<^verbatim>\<open>df\<close> depends on
  which object each call works on, so the DataFrame objects live in a store: a list of
  frames, an object's address being its position, and the name \<^verbatim>\<open>df\<close> holds an address.
\<close>

record 'a store =
  objects :: "'a frame list"
  df :: nat

text \<open>A name is bound when its address is that of an object of the store.\<close>

definition bound :: "'a store \<Rightarrow> bool" where
  "bound s \<longleftrightarrow> df s < length (objects s)"

definition working_table :: "'a store \<Rightarrow> 'a frame" where
  "working_table s = objects s ! df s"

text \<open>A call that returns a new DataFrame puts it at the next free address.\<close>

definition new_object :: "'a frame \<Rightarrow> 'a store \<Rightarrow> nat \<times> 'a store" where
  "new_object f s = (length (objects s), s\<lparr>objects := objects s @ [f]\<rparr>)"

text \<open>\<^verbatim>\<open>x.sort_values(by="test_date")\<close>: reads the object at \<open>a\<close>, returns a new one.\<close>

definition sort_values_call :: "nat \<Rightarrow> 'a store \<Rightarrow> nat \<times> 'a store" where
  "sort_values_call a s = new_object (sort_values (objects s ! a)) s"

text \<open>
  \<^verbatim>\<open>x.drop_duplicates(subset="vehicle_id", keep="first", inplace=True)\<close>: overwrites the
  object at \<open>a\<close> and returns \<^verbatim>\<open>None\<close>.
\<close>

definition drop_duplicates_inplace :: "nat \<Rightarrow> 'a store \<Rightarrow> 'a store" where
  "drop_duplicates_inplace a s =
     s\<lparr>objects := (objects s)[a := drop_duplicates (objects s ! a)]\<rparr>"

text \<open>
  The whole statement: the receiver of \<^verbatim>\<open>drop_duplicates\<close> is the object that
  \<^verbatim>\<open>sort_values\<close> returned; the statement's value (\<^verbatim>\<open>None\<close>) is thrown away and no name is
  assigned.
\<close>

definition dedup_statement :: "'a store \<Rightarrow> 'a store" where
  "dedup_statement s =
     (let (tmp, s1) = sort_values_call (df s) s in drop_duplicates_inplace tmp s1)"

text \<open>
  The deduplication stage as a function of its input table: \<^verbatim>\<open>df\<close> is bound to the
  input, the statement runs, and the stage's output is the table \<^verbatim>\<open>df\<close> is bound to
  afterwards, which is what every later line of the scripts reads.
\<close>

definition dedup_stage :: "'a frame \<Rightarrow> 'a frame" where
  "dedup_stage t = working_table (dedup_statement \<lparr>objects = [t], df = 0\<rparr>)"

section \<open>The Type Normalizer\<close>

text \<open>
  \<^verbatim>\<open>read_csv\<close> delivers the two date columns as text; an empty cell is pandas' missing
  value, \<open>None\<close> here. The columns of the file as loaded:
\<close>

record raw_row =
  csv_test_id :: int
  csv_vehicle_id :: int
  csv_test_date :: "string option"
  csv_first_use_date :: "string option"
  csv_test_type :: string
  csv_test_result :: "string option"
  csv_test_class_id :: int

text \<open>
  pandas' date parser is not part of the repository: it is a parameter, giving the
  timestamp of a text or \<open>None\<close> when the text does not parse. A date that no 64-bit
  count of nanoseconds reaches does not parse.
\<close>

type_synonym parser = "string \<Rightarrow> int option"

text \<open>The exceptions that pandas raises in the lines modelled here.\<close>

datatype error = ValueError | TypeError | OverflowError

text \<open>
  \<^verbatim>\<open>pd.to_datetime(column)\<close> with the default \<^verbatim>\<open>errors="raise"\<close>: a missing cell becomes
  \<^verbatim>\<open>NaT\<close>, a text that does not parse raises.
\<close>

fun to_datetime :: "parser \<Rightarrow> string option list \<Rightarrow> error + int option list" where
  "to_datetime p [] = Inr []"
| "to_datetime p (c # cs) =
     (case c of
        None \<Rightarrow>
          (case to_datetime p cs of Inl e \<Rightarrow> Inl e | Inr ds \<Rightarrow> Inr (None # ds))
      | Some txt \<Rightarrow>
          (case p txt of
             None \<Rightarrow> Inl ValueError
           | Some d \<Rightarrow>
               (case to_datetime p cs of Inl e \<Rightarrow> Inl e | Inr ds \<Rightarrow> Inr (Some d # ds))))"

text \<open>
  \<^verbatim>\<open>pd.to_datetime(column, errors='coerce')\<close>: a text that does not parse becomes \<^verbatim>\<open>NaT\<close>.
\<close>

definition to_datetime_coerce :: "parser \<Rightarrow> string option list \<Rightarrow> int option list" where
  "to_datetime_coerce p cs = map (\<lambda>c. case c of None \<Rightarrow> None | Some txt \<Rightarrow> p txt) cs"

text \<open>A loaded row with its two date cells replaced by the converted values.\<close>

definition with_dates :: "'a raw_row_scheme \<Rightarrow> int option \<Rightarrow> int option \<Rightarrow> 'a row_scheme" where
  "with_dates r td fd =
     \<lparr>test_id = csv_test_id r, vehicle_id = csv_vehicle_id r, test_date = td,
      first_use_date = fd, test_type = csv_test_type r, test_result = csv_test_result r,
      test_class_id = csv_test_class_id r, \<dots> = raw_row.more r\<rparr>"

text \<open>
  Lines 16 and 17 of \<^verbatim>\<open>main.py\<close> (30 and 31 of the checkpoint): each date column is taken
  out of the table, converted and assigned back.
\<close>

definition type_normalizer :: "parser \<Rightarrow> 'a raw_row_scheme list \<Rightarrow> error + 'a frame" where
  "type_normalizer p t =
     (case to_datetime p (map csv_test_date t) of
        Inl e \<Rightarrow> Inl e
      | Inr tds \<Rightarrow>
          Inr (map (\<lambda>(r, td, fd). with_dates r td fd)
                 (zip t (zip tds (to_datetime_coerce p (map csv_first_use_date t))))))"

text \<open>
  Lines 20 to 22 of \<^verbatim>\<open>main.py\<close> (34 to 36 of the checkpoint) then turn test_result, among
  others, into a category column. That changes no cell, but it fixes the column's
  categories: the distinct result codes of the file as loaded. Every later table is a
  selection of rows of that one, and its test_result column keeps these categories, also
  those that no remaining row has. pandas keeps the categories sorted; their order plays
  no part below.
\<close>

text \<open>The cells of a column that are not missing, in order.\<close>

fun present_cells :: "'a option list \<Rightarrow> 'a list" where
  "present_cells [] = []"
| "present_cells (None # cs) = present_cells cs"
| "present_cells (Some x # cs) = x # present_cells cs"

definition categories :: "string option list \<Rightarrow> string list" where
  "categories cells = remdups (present_cells cells)"

section \<open>The Filter Stage\<close>

text \<open>\<^verbatim>\<open>df = df[df.test_type == "NT"]\<close>\<close>

definition filter_test_type :: "'a frame \<Rightarrow> 'a frame" where
  "filter_test_type t = filter (\<lambda>r. test_type r = ''NT'') t"

text \<open>\<^verbatim>\<open>df = df[df.test_class_id == 4]\<close>\<close>

definition filter_test_class :: "'a frame \<Rightarrow> 'a frame" where
  "filter_test_class t = filter (\<lambda>r. test_class_id r = 4) t"

text \<open>
  \<^verbatim>\<open>main.py\<close> (line 32) applies the first filter only; the checkpoint (lines 42 and 45)
  applies the first and then the second.
\<close>

definition filter_stage_main :: "'a frame \<Rightarrow> 'a frame" where
  "filter_stage_main t = filter_test_type t"

definition filter_stage_checkpoint :: "'a frame \<Rightarrow> 'a frame" where
  "filter_stage_checkpoint t = filter_test_class (filter_test_type t)"

section \<open>The duplicate count\<close>

text \<open>\<^verbatim>\<open>num_duplicate_vehicle_ids = len(df) - df.vehicle_id.nunique()\<close>\<close>

definition nunique :: "int list \<Rightarrow> nat" where
  "nunique xs = length (remdups xs)"

definition num_duplicate_vehicle_ids :: "'a frame \<Rightarrow> int" where
  "num_duplicate_vehicle_ids t = int (length t) - int (nunique (map vehicle_id t))"

section \<open>The Feature Deriver\<close>

text \<open>
  \<^verbatim>\<open>df["test_result_passed"] = df.test_result.apply(lambda result_code: 1 if result_code == "P" else 0)\<close>
  The function of the statement:
\<close>

definition passed :: "string \<Rightarrow> int" where
  "passed result_code = (if result_code = ''P'' then 1 else 0)"

text \<open>
  \<^verbatim>\<open>apply\<close> on a category column, given the column's categories and its cells. A column
  without cells comes back as an empty column of its own dtype, category. Otherwise
  pandas applies the function to the categories and not to the cells: a missing cell
  stays missing, every other cell gets the image of its category. The result is again a
  category column when the images of the categories are pairwise distinct, and a column
  of numbers otherwise.
\<close>

datatype dtype = Category | Numeric

definition apply_passed :: "string list \<Rightarrow> string option list \<Rightarrow> dtype \<times> int option list" where
  "apply_passed cats cells =
     (if cells = [] then (Category, [])
      else (if distinct (map passed cats) then Category else Numeric,
            map (map_option passed) cells))"

text \<open>
  The assignment adds the column: the table's rows get one more field, and the table
  is paired with the dtype of the new column.
\<close>

record prow = row +
  test_result_passed :: "int option"

definition with_passed :: "'a row_scheme \<Rightarrow> int option \<Rightarrow> 'a prow_scheme" where
  "with_passed r v =
     \<lparr>test_id = test_id r, vehicle_id = vehicle_id r, test_date = test_date r,
      first_use_date = first_use_date r, test_type = test_type r,
      test_result = test_result r, test_class_id = test_class_id r,
      test_result_passed = v, \<dots> = row.more r\<rparr>"

definition add_test_result_passed ::
  "string list \<Rightarrow> 'a row_scheme list \<Rightarrow> dtype \<times> 'a prow_scheme list" where
  "add_test_result_passed cats t =
     (case apply_passed cats (map test_result t) of
        (dt, col) \<Rightarrow> (dt, map (\<lambda>(r, v). with_passed r v) (zip t col)))"

text \<open>
  \<^verbatim>\<open>df["vehicle_age"] = df["test_date"]-df["first_use_date"]\<close> (the checkpoint's line 74).
  pandas subtracts the 64-bit integers of the two columns. Where one of the two dates is
  missing the difference is missing. Where both are present and their difference does
  not fit 64 bits, the subtraction raises. The least 64-bit integer is the one that
  stands for a missing value, so a difference of exactly that value reads as missing.
\<close>

definition int64_min :: int where
  "int64_min = - (2 ^ 63)"

definition int64_max :: int where
  "int64_max = 2 ^ 63 - 1"

definition timestamp_sub :: "int option \<Rightarrow> int option \<Rightarrow> error + int option" where
  "timestamp_sub a b =
     (case a of
        None \<Rightarrow> Inr None
      | Some x \<Rightarrow>
          (case b of
             None \<Rightarrow> Inr None
           | Some y \<Rightarrow>
               if x - y < int64_min \<or> int64_max < x - y then Inl OverflowError
               else if x - y = int64_min then Inr None
               else Inr (Some (x - y))))"

text \<open>The difference of two columns: one overflow fails the whole statement.\<close>

fun sub_columns :: "int option list \<Rightarrow> int option list \<Rightarrow> error + int option list" where
  "sub_columns (a # as) (b # bs) =
     (case timestamp_sub a b of
        Inl e \<Rightarrow> Inl e
      | Inr v \<Rightarrow> (case sub_columns as bs of Inl e \<Rightarrow> Inl e | Inr vs \<Rightarrow> Inr (v # vs)))"
| "sub_columns as bs = Inr []"

record arow = prow +
  vehicle_age :: "int option"

definition with_vehicle_age :: "'a prow_scheme \<Rightarrow> int option \<Rightarrow> 'a arow_scheme" where
  "with_vehicle_age r v =
     \<lparr>test_id = test_id r, vehicle_id = vehicle_id r, test_date = test_date r,
      first_use_date = first_use_date r, test_type = test_type r,
      test_result = test_result r, test_class_id = test_class_id r,
      test_result_passed = test_result_passed r, vehicle_age = v, \<dots> = prow.more r\<rparr>"

definition add_vehicle_age :: "'a prow_scheme list \<Rightarrow> error + 'a arow_scheme list" where
  "add_vehicle_age t =
     (case sub_columns (map test_date t) (map first_use_date t) of
        Inl e \<Rightarrow> Inl e
      | Inr col \<Rightarrow> Inr (map (\<lambda>(r, v). with_vehicle_age r v) (zip t col)))"

section \<open>The Summarizer\<close>

text \<open>
  \<^verbatim>\<open>df.test_result_passed.mean()\<close>. A category column has no mean: pandas raises. The mean
  of a column of numbers is the sum of its cells that are not missing over their number;
  when there is no such cell it is not a number (pandas gives \<^verbatim>\<open>NaN\<close>), \<open>None\<close> here. The
  quotient is taken in the reals.
\<close>

definition mean :: "dtype \<Rightarrow> int option list \<Rightarrow> error + real option" where
  "mean dt col =
     (case dt of
        Category \<Rightarrow> Inl TypeError
      | Numeric \<Rightarrow>
          (let xs = present_cells col
           in Inr (if xs = [] then None
                   else Some (real_of_int (sum_list xs) / real (length xs)))))"

definition pass_rate :: "dtype \<times> 'a prow_scheme list \<Rightarrow> error + real option" where
  "pass_rate f = mean (fst f) (map test_result_passed (snd f))"

text \<open>
  The bound \<open>0 \<le> m \<le> 1\<close> on the outcome of \<open>mean\<close>: there must be a mean, and every
  comparison with \<^verbatim>\<open>NaN\<close> is false.
\<close>

definition in_unit_interval :: "error + real option \<Rightarrow> bool" where
  "in_unit_interval m =
     (case m of
        Inl e \<Rightarrow> False
      | Inr v \<Rightarrow> (case v of None \<Rightarrow> False | Some x \<Rightarrow> 0 \<le> x \<and> x \<le> 1))"

section \<open>The two scripts\<close>

text \<open>
  \<^verbatim>\<open>main.py\<close> from line 16 on, as a function of the loaded table. It derives
  test_result_passed before the deduplication statement and returns the pass rate of
  line 42, the duplicate count of line 44 and the pass rate of line 66. An exception
  ends the script.
\<close>

definition main_py ::
  "parser \<Rightarrow> 'a raw_row_scheme list \<Rightarrow> error + real option \<times> int \<times> real option" where
  "main_py p loaded =
     (case type_normalizer p loaded of
        Inl e \<Rightarrow> Inl e
      | Inr t \<Rightarrow>
          (let cats = categories (map csv_test_result loaded);
               t1 = add_test_result_passed cats (filter_stage_main t)
           in case pass_rate t1 of
                Inl e \<Rightarrow> Inl e
              | Inr rate \<Rightarrow>
                  (let n = num_duplicate_vehicle_ids (snd t1);
                       t2 = dedup_stage (snd t1)
                   in case pass_rate (fst t1, t2) of
                        Inl e \<Rightarrow> Inl e
                      | Inr rate' \<Rightarrow> Inr (rate, n, rate'))))"

text \<open>
  The checkpoint from line 30 on. It filters on both columns, runs the deduplication
  statement and derives the features afterwards; it returns the duplicate count of
  line 48, the pass rate of line 71 and the table with its derived columns.
\<close>

definition checkpoint_py ::
  "parser \<Rightarrow> 'a raw_row_scheme list \<Rightarrow> error + int \<times> real option \<times> 'a arow_scheme list" where
  "checkpoint_py p loaded =
     (case type_normalizer p loaded of
        Inl e \<Rightarrow> Inl e
      | Inr t \<Rightarrow>
          (let cats = categories (map csv_test_result loaded);
               t1 = filter_stage_checkpoint t;
               n = num_duplicate_vehicle_ids t1;
               t2 = dedup_stage t1;
               t3 = add_test_result_passed cats t2
           in case pass_rate t3 of
                Inl e \<Rightarrow> Inl e
              | Inr rate \<Rightarrow>
                  (case add_vehicle_age (snd t3) of
                     Inl e \<Rightarrow> Inl e
                   | Inr t4 \<Rightarrow> Inr (n, rate, t4))))"

section \<open>Example tables\<close>

text \<open>The timestamp of midnight, \<open>n\<close> days after 1970-01-01.\<close>

definition days :: "int \<Rightarrow> int" where
  "days n = n * 86400000000000"

text \<open>
  A normal class 4 test of vehicle \<open>vid\<close> on day \<open>day\<close> (days since 1970-01-01) with
  result code \<open>res\<close>; the vehicle was first used on 2015-01-01 (day 16436).
\<close>

definition mot :: "int \<Rightarrow> int \<Rightarrow> int \<Rightarrow> string \<Rightarrow> row" where
  "mot tid vid day res =
     \<lparr>test_id = tid, vehicle_id = vid, test_date = Some (days day),
      first_use_date = Some (days 16436), test_type = ''NT'', test_result = Some res,
      test_class_id = 4\<rparr>"

text \<open>
  Three tests of vehicle 7: a fail on 2022-03-01 (day 19052), passes on 2022-03-15
  (day 19066) and 2022-04-01 (day 19083). The table lists them latest first.
\<close>

definition three_attempts :: "row list" where
  "three_attempts = [mot 3 7 19083 ''P'', mot 2 7 19066 ''P'', mot 1 7 19052 ''F'']"

text \<open>Two tests of vehicle 298937 and one of vehicle 5.\<close>

definition retest_table :: "row list" where
  "retest_table = [mot 10 298937 19052 ''F'', mot 11 5 19053 ''P'', mot 12 298937 19060 ''P'']"

text \<open>A normal test of a class 7 vehicle (a goods vehicle), and a retest of a car.\<close>

definition van_test :: row where
  "van_test = (mot 20 8 19052 ''P'')\<lparr>test_class_id := 7\<rparr>"

definition car_retest :: row where
  "car_retest = (mot 21 9 19052 ''P'')\<lparr>test_type := ''RT''\<rparr>"

text \<open>A parser that knows one date, and two loaded rows: one that it reads, one whose
  test_date it does not and whose first_use_date is empty.\<close>

definition one_date_parser :: parser where
  "one_date_parser txt = (if txt = ''2022-03-01'' then Some (days 19052) else None)"

definition loaded_ok :: raw_row where
  "loaded_ok =
     \<lparr>csv_test_id = 1, csv_vehicle_id = 7, csv_test_date = Some ''2022-03-01'',
      csv_first_use_date = Some ''unknown'', csv_test_type = ''NT'',
      csv_test_result = Some ''F'',
      csv_test_class_id = 4\<rparr>"

definition loaded_bad_test_date :: raw_row where
  "loaded_bad_test_date =
     \<lparr>csv_test_id = 2, csv_vehicle_id = 7, csv_test_date = Some ''01/03/22 ??'',
      csv_first_use_date = None, csv_test_type = ''NT'',
      csv_test_result = Some ''P'',
      csv_test_class_id = 4\<rparr>"

text \<open>
  The result codes of a file that holds passes, fails and tests passed after
  rectification at the station, and those of a file that holds passes and fails only.
\<close>

definition three_codes :: "string list" where
  "three_codes = [''F'', ''P'', ''PRS'']"

definition two_codes :: "string list" where
  "two_codes = [''F'', ''P'']"

text \<open>A test whose result cell is empty in the file.\<close>

definition no_result :: row where
  "no_result = (mot 30 9 19052 ''P'')\<lparr>test_result := None\<rparr>"

text \<open>Two tests with their pass column; the second vehicle's first use date is missing.\<close>

definition first_use_unknown :: "prow list" where
  "first_use_unknown =
     snd (add_test_result_passed three_codes
       [mot 1 7 19052 ''F'', (mot 2 8 19053 ''P'')\<lparr>first_use_date := None\<rparr>])"

text \<open>
  A test on 2022-03-01 of a vehicle whose first use date reads 1700-01-01 (98615 days
  before 1970-01-01) and a test of a vehicle whose first use date is missing, with
  their pass column.
\<close>

definition first_use_1700 :: "prow list" where
  "first_use_1700 =
     snd (add_test_result_passed three_codes
       [(mot 1 7 19052 ''F'')\<lparr>first_use_date := Some (days (- 98615))\<rparr>,
        (mot 2 8 19053 ''P'')\<lparr>first_use_date := None\<rparr>])"

section \<open>Facts about the statement\<close>

lemma dedup_statement_objects:
  "objects (dedup_statement s) =
     objects s @ [drop_duplicates (sort_values (objects s ! df s))]"
  by (simp add: dedup_statement_def sort_values_call_def new_object_def
      drop_duplicates_inplace_def)

lemma dedup_statement_df: "df (dedup_statement s) = df s"
  by (simp add: dedup_statement_def sort_values_call_def new_object_def
      drop_duplicates_inplace_def)

lemma dedup_statement_bound: "bound s \<Longrightarrow> bound (dedup_statement s)"
  by (simp add: bound_def dedup_statement_objects dedup_statement_df)

lemma dedup_statement_old_objects:
  "a < length (objects s) \<Longrightarrow> objects (dedup_statement s) ! a = objects s ! a"
  by (simp add: dedup_statement_objects nth_append)

lemma dedup_statement_working_table:
  "bound s \<Longrightarrow> working_table (dedup_statement s) = working_table s"
  by (simp add: working_table_def bound_def dedup_statement_df dedup_statement_old_objects)

lemma dedup_stage_id: "dedup_stage t = t"
  using dedup_statement_working_table [of "\<lparr>objects = [t], df = 0\<rparr>"]
  by (simp add: dedup_stage_def bound_def working_table_def)

section \<open>Facts about the sorted copy\<close>

text \<open>
  What the statement leaves in the temporary object: one row per vehicle, the count of
  line 44 fewer rows than the table, and for each vehicle a row of its earliest date.
\<close>


lemma keep_first_ids:
  "vehicle_id ` set (keep_first seen t) = vehicle_id ` set t - set seen"
  by (induction seen t rule: keep_first.induct) auto

lemma keep_first_subset: "set (keep_first seen t) \<subseteq> set t"
  by (induction seen t rule: keep_first.induct) auto

lemma keep_first_distinct: "distinct (map vehicle_id (keep_first seen t))"
proof (induction seen t rule: keep_first.induct)
  case (1 seen)
  show ?case by simp
next
  case (2 seen r rs)
  show ?case
  proof (cases "vehicle_id r \<in> set seen")
    case True
    with 2 show ?thesis by simp
  next
    case False
    have "vehicle_id r \<notin> vehicle_id ` set (keep_first (vehicle_id r # seen) rs)"
      by (simp add: keep_first_ids)
    with False 2 show ?thesis by simp
  qed
qed

lemma keep_first_length:
  "length (keep_first seen t) = card (vehicle_id ` set t - set seen)"
proof -
  have "length (keep_first seen t) = length (map vehicle_id (keep_first seen t))"
    by simp
  also have "\<dots> = card (set (map vehicle_id (keep_first seen t)))"
    by (rule distinct_card [symmetric]) (rule keep_first_distinct)
  also have "\<dots> = card (vehicle_id ` set t - set seen)"
    by (simp add: keep_first_ids)
  finally show ?thesis .
qed

lemma drop_duplicates_distinct: "distinct (map vehicle_id (drop_duplicates t))"
  by (simp add: drop_duplicates_def keep_first_distinct)

lemma drop_duplicates_length: "length (drop_duplicates t) = nunique (map vehicle_id t)"
  by (simp add: drop_duplicates_def keep_first_length nunique_def length_remdups_card_conv)

lemma sort_values_set: "set (sort_values t) = set t"
  by (simp add: sort_values_def)

lemma sort_values_length: "length (sort_values t) = length t"
  by (simp add: sort_values_def)

lemma sort_values_mset: "mset (sort_values t) = mset t"
  by (simp add: sort_values_def)

lemma sort_values_sorted: "sorted (map (\<lambda>r. date_key (test_date r)) (sort_values t))"
  by (simp add: sort_values_def)

lemma sorted_copy_length:
  "length (drop_duplicates (sort_values t)) = nunique (map vehicle_id t)"
  by (simp add: drop_duplicates_length nunique_def length_remdups_card_conv sort_values_set)

lemma nunique_le_length: "nunique (map vehicle_id t) \<le> length t"
  using length_remdups_leq [of "map vehicle_id t"] by (simp add: nunique_def)

lemma sorted_copy_count:
  "int (length t) - int (length (drop_duplicates (sort_values t))) = num_duplicate_vehicle_ids t"
  by (simp add: sorted_copy_length num_duplicate_vehicle_ids_def)

lemma keep_first_split:
  "r \<in> set (keep_first seen t) \<Longrightarrow>
     \<exists>ys zs. t = ys @ r # zs \<and> vehicle_id r \<notin> vehicle_id ` set ys \<and> vehicle_id r \<notin> set seen"
proof (induction seen t rule: keep_first.induct)
  case (1 seen)
  then show ?case by simp
next
  case (2 seen x xs)
  show ?case
  proof (cases "vehicle_id x \<in> set seen")
    case True
    with 2 obtain ys zs where
      "xs = ys @ r # zs" "vehicle_id r \<notin> vehicle_id ` set ys" "vehicle_id r \<notin> set seen"
      by auto
    with True have "x # xs = (x # ys) @ r # zs \<and> vehicle_id r \<notin> vehicle_id ` set (x # ys)
        \<and> vehicle_id r \<notin> set seen"
      by auto
    then show ?thesis by blast
  next
    case False
    show ?thesis
    proof (cases "r = x")
      case True
      with False have "x # xs = [] @ r # xs \<and> vehicle_id r \<notin> vehicle_id ` set []
          \<and> vehicle_id r \<notin> set seen"
        by simp
      then show ?thesis by blast
    next
      case neq: False
      with False 2 obtain ys zs where
        "xs = ys @ r # zs" "vehicle_id r \<notin> vehicle_id ` set ys"
        "vehicle_id r \<notin> set (vehicle_id x # seen)"
        by auto
      then have "x # xs = (x # ys) @ r # zs \<and> vehicle_id r \<notin> vehicle_id ` set (x # ys)
          \<and> vehicle_id r \<notin> set seen"
        by auto
      then show ?thesis by blast
    qed
  qed
qed

lemma sorted_copy_earliest:
  assumes r: "r \<in> set (drop_duplicates (sort_values t))"
    and x: "x \<in> set t" and same: "vehicle_id x = vehicle_id r"
  shows "date_key (test_date r) \<le> date_key (test_date x)"
proof -
  from r obtain ys zs where
    split: "sort_values t = ys @ r # zs" and first: "vehicle_id r \<notin> vehicle_id ` set ys"
    unfolding drop_duplicates_def by (blast dest: keep_first_split)
  from x have "x \<in> set (sort_values t)" by (simp add: sort_values_set)
  moreover have "x \<notin> set ys"
  proof
    assume "x \<in> set ys"
    then have "vehicle_id x \<in> vehicle_id ` set ys" by (rule imageI)
    with first same show False by simp
  qed
  ultimately have "x = r \<or> x \<in> set zs" by (simp add: split)
  moreover have "sorted (map (\<lambda>r. date_key (test_date r)) (ys @ r # zs))"
    using sort_values_sorted [of t] by (simp add: split)
  then have "\<forall>z \<in> set zs. date_key (test_date r) \<le> date_key (test_date z)"
    by (simp add: sorted_append)
  ultimately show ?thesis by auto
qed

section \<open>Facts about the Type Normalizer\<close>

lemma to_datetime_Inr:
  "to_datetime p cs = Inr ds \<Longrightarrow> ds = to_datetime_coerce p cs"
  by (induction cs arbitrary: ds)
    (auto simp: to_datetime_coerce_def split: option.splits sum.splits)

lemma to_datetime_error: "to_datetime p cs = Inl e \<Longrightarrow> e = ValueError"
  by (induction cs) (auto split: option.splits sum.splits)

lemma to_datetime_Inl:
  "(\<exists>e. to_datetime p cs = Inl e) \<longleftrightarrow> (\<exists>txt. Some txt \<in> set cs \<and> p txt = None)"
  by (induction cs) (auto split: option.splits sum.splits)

lemma zip_columns:
  "map (\<lambda>(r, a, b). f r a b) (zip t (zip (map g t) (map h t))) = map (\<lambda>r. f r (g r) (h r)) t"
  by (induction t) simp_all

lemma type_normalizer_Inr:
  assumes "type_normalizer p t = Inr t'"
  shows "t' = map (\<lambda>r. with_dates r
                (case csv_test_date r of None \<Rightarrow> None | Some txt \<Rightarrow> p txt)
                (case csv_first_use_date r of None \<Rightarrow> None | Some txt \<Rightarrow> p txt)) t"
proof -
  from assms obtain tds where tds: "to_datetime p (map csv_test_date t) = Inr tds"
    and t': "t' = map (\<lambda>(r, td, fd). with_dates r td fd)
               (zip t (zip tds (to_datetime_coerce p (map csv_first_use_date t))))"
    by (auto simp: type_normalizer_def split: sum.splits)
  from tds have "tds = to_datetime_coerce p (map csv_test_date t)"
    by (rule to_datetime_Inr)
  with t' show ?thesis
    by (simp add: to_datetime_coerce_def zip_columns)
qed

lemma type_normalizer_error: "type_normalizer p t = Inl e \<Longrightarrow> e = ValueError"
  by (cases "to_datetime p (map csv_test_date t)")
    (auto simp: type_normalizer_def dest: to_datetime_error)

lemma type_normalizer_Inl:
  "type_normalizer p t = Inl ValueError \<longleftrightarrow>
     (\<exists>r \<in> set t. \<exists>txt. csv_test_date r = Some txt \<and> p txt = None)"
proof -
  have "type_normalizer p t = Inl ValueError \<longleftrightarrow> (\<exists>e. to_datetime p (map csv_test_date t) = Inl e)"
    by (cases "to_datetime p (map csv_test_date t)")
      (auto simp: type_normalizer_def dest: to_datetime_error)
  also have "\<dots> \<longleftrightarrow> (\<exists>txt. Some txt \<in> set (map csv_test_date t) \<and> p txt = None)"
    by (rule to_datetime_Inl)
  also have "\<dots> \<longleftrightarrow> (\<exists>r \<in> set t. \<exists>txt. csv_test_date r = Some txt \<and> p txt = None)"
  proof
    assume "\<exists>txt. Some txt \<in> set (map csv_test_date t) \<and> p txt = None"
    then obtain x where x: "Some x \<in> csv_test_date ` set t" and p: "p x = None"
      by auto
    from x obtain r where "r \<in> set t" and "Some x = csv_test_date r"
      by (rule imageE)
    with p have "r \<in> set t" "csv_test_date r = Some x" "p x = None"
      by simp_all
    then show "\<exists>r \<in> set t. \<exists>txt. csv_test_date r = Some txt \<and> p txt = None"
      by blast
  next
    assume "\<exists>r \<in> set t. \<exists>txt. csv_test_date r = Some txt \<and> p txt = None"
    then obtain r x where r: "r \<in> set t" "csv_test_date r = Some x" and p: "p x = None"
      by blast
    from r have "csv_test_date r \<in> csv_test_date ` set t" by (intro imageI)
    with r have "Some x \<in> set (map csv_test_date t)" by simp
    with p show "\<exists>txt. Some txt \<in> set (map csv_test_date t) \<and> p txt = None"
      by blast
  qed
  finally show ?thesis .
qed

section \<open>Facts about the derived columns and the mean\<close>

lemma working_table_single: "working_table \<lparr>objects = [t], df = 0\<rparr> = t"
  by (simp add: working_table_def)

lemma zip_column: "map (\<lambda>(r, v). f r v) (zip t (map g t)) = map (\<lambda>r. f r (g r)) t"
  by (induction t) simp_all

lemma add_test_result_passed_rows:
  "snd (add_test_result_passed cats t) =
     map (\<lambda>r. with_passed r (map_option passed (test_result r))) t"
proof (cases "t = []")
  case True
  then show ?thesis by (simp add: add_test_result_passed_def apply_passed_def)
next
  case False
  have "map (\<lambda>(r, v). with_passed r v)
          (zip t (map (\<lambda>r. map_option passed (test_result r)) t)) =
        map (\<lambda>r. with_passed r (map_option passed (test_result r))) t"
    by (rule zip_column)
  with False show ?thesis
    by (simp add: add_test_result_passed_def apply_passed_def comp_def)
qed

lemma add_test_result_passed_dtype:
  "fst (add_test_result_passed cats t) =
     (if t = [] \<or> distinct (map passed cats) then Category else Numeric)"
  by (simp add: add_test_result_passed_def apply_passed_def)

lemma passed_column:
  "map test_result_passed (snd (add_test_result_passed cats t)) =
     map (\<lambda>r. map_option passed (test_result r)) t"
  by (simp add: add_test_result_passed_rows with_passed_def comp_def)

lemma passed_vehicle_id:
  "map vehicle_id (snd (add_test_result_passed cats t)) = map vehicle_id t"
  by (simp add: add_test_result_passed_rows with_passed_def comp_def)

text \<open>
  The images of the categories are pairwise distinct exactly when at most one category
  is a code other than "P".
\<close>

lemma passed_images_distinct:
  "distinct cats \<Longrightarrow>
     distinct (map passed cats) \<longleftrightarrow> length (filter (\<lambda>c. c \<noteq> ''P'') cats) \<le> 1"
proof (induction cats)
  case Nil
  show ?case by simp
next
  case (Cons c cs)
  then have IH: "distinct (map passed cs) \<longleftrightarrow> length (filter (\<lambda>c. c \<noteq> ''P'') cs) \<le> 1"
    and fresh: "c \<notin> set cs"
    by simp_all
  show ?case
  proof (cases "c = ''P''")
    case True
    with fresh have "passed c \<notin> passed ` set cs"
      by (auto simp: passed_def split: if_splits)
    with True IH show ?thesis by simp
  next
    case False
    have "passed c \<notin> passed ` set cs \<longleftrightarrow> filter (\<lambda>c. c \<noteq> ''P'') cs = []"
      using False by (auto simp: passed_def filter_empty_conv split: if_splits)
    with False IH show ?thesis by auto
  qed
qed

lemma sum_list_01:
  "\<forall>x \<in> set xs. 0 \<le> x \<and> x \<le> 1 \<Longrightarrow> 0 \<le> sum_list xs \<and> sum_list xs \<le> int (length xs)"
  by (induction xs) auto

lemma quotient_01:
  assumes "xs \<noteq> []" and "\<forall>x \<in> set xs. 0 \<le> x \<and> x \<le> 1"
  shows "0 \<le> real_of_int (sum_list xs) / real (length xs) \<and>
         real_of_int (sum_list xs) / real (length xs) \<le> 1"
proof -
  from assms(2) have s: "0 \<le> sum_list xs" "sum_list xs \<le> int (length xs)"
    using sum_list_01 by blast+
  from assms(1) have n: "0 < real (length xs)" by simp
  from s(2) have "real_of_int (sum_list xs) \<le> real (length xs)"
    by (metis of_int_le_iff of_int_of_nat_eq)
  with n s(1) show ?thesis by simp
qed

lemma set_present_cells: "set (present_cells cs) = {x. Some x \<in> set cs}"
  by (induction cs rule: present_cells.induct) auto

lemma present_cells_empty: "present_cells cs = [] \<longleftrightarrow> (\<forall>c \<in> set cs. c = None)"
  by (induction cs rule: present_cells.induct) auto

lemma present_passed_01:
  "\<forall>x \<in> set (present_cells (map (\<lambda>r. map_option passed (test_result r)) t)).
     0 \<le> x \<and> x \<le> 1"
proof
  fix x
  assume "x \<in> set (present_cells (map (\<lambda>r. map_option passed (test_result r)) t))"
  then have "Some x \<in> (\<lambda>r. map_option passed (test_result r)) ` set t"
    by (simp add: set_present_cells)
  then obtain r where "Some x = map_option passed (test_result r)" and "r \<in> set t"
    by (rule imageE)
  then obtain c where "x = passed c"
    by (cases "test_result r") auto
  then show "0 \<le> x \<and> x \<le> 1"
    by (simp add: passed_def)
qed

lemma present_passed_empty:
  "present_cells (map (\<lambda>r. map_option passed (test_result r)) t) = [] \<longleftrightarrow>
     (\<forall>r \<in> set t. test_result r = None)"
  by (simp add: present_cells_empty)

lemma timestamp_sub_overflow:
  "timestamp_sub a b = Inl e \<longleftrightarrow>
     e = OverflowError \<and>
     (\<exists>d f. a = Some d \<and> b = Some f \<and> (d - f < int64_min \<or> int64_max < d - f))"
  by (auto simp: timestamp_sub_def split: option.splits)

lemma sub_columns_Inl:
  "sub_columns (map f t) (map g t) = Inl e \<longleftrightarrow>
     e = OverflowError \<and> (\<exists>r \<in> set t. timestamp_sub (f r) (g r) = Inl OverflowError)"
proof (induction t)
  case Nil
  show ?case by simp
next
  case (Cons r t)
  show ?case
  proof (cases "timestamp_sub (f r) (g r)")
    case (Inl e')
    then have "e' = OverflowError" by (simp add: timestamp_sub_overflow)
    with Inl show ?thesis by auto
  next
    case (Inr v)
    with Cons show ?thesis by (auto split: sum.splits)
  qed
qed

lemma sub_columns_Inr:
  "sub_columns (map f t) (map g t) = Inr vs \<Longrightarrow>
     list_all2 (\<lambda>r v. timestamp_sub (f r) (g r) = Inr v) t vs"
  by (induction t arbitrary: vs) (auto split: sum.splits)

lemma add_vehicle_age_Inl:
  "add_vehicle_age t = Inl e \<longleftrightarrow>
     e = OverflowError \<and>
     (\<exists>r \<in> set t. timestamp_sub (test_date r) (first_use_date r) = Inl OverflowError)"
proof -
  have "add_vehicle_age t = Inl e \<longleftrightarrow>
      sub_columns (map test_date t) (map first_use_date t) = Inl e"
    by (simp add: add_vehicle_age_def split: sum.splits)
  then show ?thesis by (simp add: sub_columns_Inl)
qed

lemma add_vehicle_age_Inr:
  assumes "add_vehicle_age t = Inr t'"
  shows "length t' = length t"
    and "map vehicle_id t' = map vehicle_id t"
    and "\<forall>i < length t.
           timestamp_sub (test_date (t ! i)) (first_use_date (t ! i)) = Inr (vehicle_age (t' ! i))"
proof -
  from assms obtain col where
    col: "sub_columns (map test_date t) (map first_use_date t) = Inr col" and
    t': "t' = map (\<lambda>(r, v). with_vehicle_age r v) (zip t col)"
    by (auto simp: add_vehicle_age_def split: sum.splits)
  from col have all: "list_all2 (\<lambda>r v. timestamp_sub (test_date r) (first_use_date r) = Inr v) t col"
    by (rule sub_columns_Inr)
  then have len: "length t = length col"
    by (rule list_all2_lengthD)
  then show "length t' = length t"
    by (simp add: t')
  from len show "map vehicle_id t' = map vehicle_id t"
    unfolding t' by (induction t col rule: list_induct2) (simp_all add: with_vehicle_age_def)
  show "\<forall>i < length t.
      timestamp_sub (test_date (t ! i)) (first_use_date (t ! i)) = Inr (vehicle_age (t' ! i))"
  proof (intro allI impI)
    fix i
    assume i: "i < length t"
    with all have "timestamp_sub (test_date (t ! i)) (first_use_date (t ! i)) = Inr (col ! i)"
      by (simp add: list_all2_conv_all_nth)
    moreover from i len have "vehicle_age (t' ! i) = col ! i"
      by (simp add: t' with_vehicle_age_def)
    ultimately show
      "timestamp_sub (test_date (t ! i)) (first_use_date (t ! i)) = Inr (vehicle_age (t' ! i))"
      by simp
  qed
qed

section \<open>Facts about the two scripts\<close>

text \<open>
  In \<^verbatim>\<open>main.py\<close> the pass rate of line 66 is the pass rate of line 42. At the end of the
  checkpoint the table still has the surplus rows that line 48 counted.
\<close>

lemma main_py_same_rate: "main_py p loaded = Inr (rate, n, rate') \<Longrightarrow> rate' = rate"
  by (auto simp: main_py_def Let_def dedup_stage_id split: sum.splits)

lemma checkpoint_py_keeps_surplus:
  assumes "checkpoint_py p loaded = Inr (n, rate, t)"
  shows "int (length t) - int (nunique (map vehicle_id t)) = n"
proof -
  from assms obtain t0 cats where
    n: "n = num_duplicate_vehicle_ids (filter_stage_checkpoint t0)" and
    t: "add_vehicle_age (snd (add_test_result_passed cats (filter_stage_checkpoint t0))) = Inr t"
    by (auto simp: checkpoint_py_def Let_def dedup_stage_id split: sum.splits)
  from t have "length t = length (snd (add_test_result_passed cats (filter_stage_checkpoint t0)))"
    by (rule add_vehicle_age_Inr)
  then have "length t = length (filter_stage_checkpoint t0)"
    by (simp add: add_test_result_passed_rows)
  moreover from t have
    "map vehicle_id t =
       map vehicle_id (snd (add_test_result_passed cats (filter_stage_checkpoint t0)))"
    by (rule add_vehicle_age_Inr)
  then have "map vehicle_id t = map vehicle_id (filter_stage_checkpoint t0)"
    by (simp only: passed_vehicle_id)
  ultimately show ?thesis
    by (simp add: n num_duplicate_vehicle_ids_def)
qed

section \<open>The deduplication statement and the working table\<close>

text \<open>
  Claim C2. The deduplication statement leaves the working table unchanged: whatever
  objects the store holds and whichever of them \<^verbatim>\<open>df\<close> names, after the statement \<^verbatim>\<open>df\<close>
  names the same object, that object holds the same rows in the same order (rows with a
  repeated vehicle_id included), and the only change to the store is one new object, the
  sorted copy with its duplicates dropped, which no name refers to.
\<close>

theorem dedup_statement_leaves_df_unchanged:
  assumes "bound s"
  shows "working_table (dedup_statement s) = working_table s \<and>
     df (dedup_statement s) = df s \<and>
     objects (dedup_statement s) =
       objects s @ [drop_duplicates (sort_values (working_table s))]"
proof (intro conjI)
  from assms show "working_table (dedup_statement s) = working_table s"
    by (rule dedup_statement_working_table)
  show "df (dedup_statement s) = df s"
    by (rule dedup_statement_df)
  show "objects (dedup_statement s) =
      objects s @ [drop_duplicates (sort_values (working_table s))]"
    by (simp add: dedup_statement_objects working_table_def)
qed

text \<open>The statement run on a table in which vehicle 298937 occurs twice.\<close>

theorem dedup_statement_leaves_df_unchanged_witness:
  "bound \<lparr>objects = [retest_table], df = 0\<rparr> \<and>
   working_table (dedup_statement \<lparr>objects = [retest_table], df = 0\<rparr>) = retest_table"
  using dedup_statement_leaves_df_unchanged [of "\<lparr>objects = [retest_table], df = 0\<rparr>"]
  by (simp add: bound_def working_table_single)

text \<open>
  Claim C9. The deduplication stage is idempotent: run on its own output it returns that
  output unchanged, as a function of the table and as a statement run twice in any store
  where \<^verbatim>\<open>df\<close> is bound.
\<close>

theorem dedup_stage_idempotent:
  "dedup_stage (dedup_stage t) = dedup_stage t \<and>
   (bound s \<longrightarrow>
      working_table (dedup_statement (dedup_statement s)) = working_table (dedup_statement s))"
  by (simp add: dedup_stage_id dedup_statement_working_table dedup_statement_bound)

theorem dedup_stage_idempotent_witness:
  "dedup_stage (dedup_stage three_attempts) = dedup_stage three_attempts \<and>
   bound \<lparr>objects = [three_attempts], df = 0\<rparr> \<and>
   working_table (dedup_statement (dedup_statement \<lparr>objects = [three_attempts], df = 0\<rparr>)) =
     working_table (dedup_statement \<lparr>objects = [three_attempts], df = 0\<rparr>)"
  using dedup_stage_idempotent [of three_attempts "\<lparr>objects = [three_attempts], df = 0\<rparr>"]
  by (simp add: bound_def)

text \<open>
  Claim C1 says that after the deduplication stage the vehicle_id values of the working
  table are pairwise distinct. On the table with two tests of vehicle 298937 the working
  table still lists that vehicle twice after the statement; the distinct ids are in the
  unnamed object at address 1.
\<close>

theorem working_table_keeps_duplicate_vehicle_ids:
  "map vehicle_id (working_table (dedup_statement \<lparr>objects = [retest_table], df = 0\<rparr>)) =
     [298937, 5, 298937] \<and>
   map vehicle_id (objects (dedup_statement \<lparr>objects = [retest_table], df = 0\<rparr>) ! 1) =
     [298937, 5]"
  by (simp add: dedup_statement_objects dedup_statement_df working_table_def retest_table_def
      mot_def days_def sort_values_def drop_duplicates_def date_key_def)

text \<open>
  Claim C3 says that the reported count \<^verbatim>\<open>len(df) - df.vehicle_id.nunique()\<close> is the number
  of rows the deduplication stage discards. On the same table the reported count is 1 and
  the stage's output has as many rows as its input: no row is discarded.
\<close>

theorem reported_count_is_not_the_discarded_count:
  "num_duplicate_vehicle_ids retest_table = 1 \<and>
   int (length retest_table) - int (length (dedup_stage retest_table)) = 0"
  by (simp add: dedup_stage_id num_duplicate_vehicle_ids_def nunique_def retest_table_def mot_def)

text \<open>
  Claim C4 says that of three tests of vehicle 7, a fail on 2022-03-01 and passes on
  2022-03-15 and 2022-04-01, the deduplication output holds the fail only. The output is
  the input, all three rows; the fail alone is what the unnamed object at address 1 holds.
\<close>

theorem three_attempts_all_kept:
  "dedup_stage three_attempts = three_attempts \<and>
   length (dedup_stage three_attempts) = 3 \<and>
   objects (dedup_statement \<lparr>objects = [three_attempts], df = 0\<rparr>) ! 1 = [mot 1 7 19052 ''F'']"
  by (simp add: dedup_stage_id dedup_statement_objects three_attempts_def
      mot_def days_def sort_values_def drop_duplicates_def date_key_def)

section \<open>The Filter Stage\<close>

text \<open>
  Claim C5, as the two scripts have it. The checkpoint's filter returns exactly the rows
  with test_type "NT" and test_class_id 4, in their order, and so the empty table exactly
  when no row has both; the filter of \<^verbatim>\<open>main.py\<close> returns exactly the rows with test_type
  "NT", of whatever class. Neither can fail.
\<close>

theorem filter_stage_subsets:
  "filter_stage_checkpoint t = filter (\<lambda>r. test_type r = ''NT'' \<and> test_class_id r = 4) t \<and>
   filter_stage_main t = filter (\<lambda>r. test_type r = ''NT'') t \<and>
   (filter_stage_checkpoint t = [] \<longleftrightarrow>
      (\<forall>r \<in> set t. \<not> (test_type r = ''NT'' \<and> test_class_id r = 4)))"
  by (auto simp: filter_stage_checkpoint_def filter_stage_main_def filter_test_type_def
      filter_test_class_def filter_empty_conv conj_commute)

theorem filter_stage_subsets_witness:
  "filter_stage_checkpoint [van_test, mot 1 7 19052 ''F'', car_retest] = [mot 1 7 19052 ''F''] \<and>
   filter_stage_main [van_test, mot 1 7 19052 ''F'', car_retest] = [van_test, mot 1 7 19052 ''F''] \<and>
   filter_stage_checkpoint [van_test, car_retest] = []"
  using filter_stage_subsets [of "[van_test, mot 1 7 19052 ''F'', car_retest]"]
    filter_stage_subsets [of "[van_test, car_retest]"]
  by (simp add: van_test_def car_retest_def mot_def)

text \<open>
  The claim as first stated fails in \<^verbatim>\<open>main.py\<close>: a normal test of a class 7 vehicle
  passes its filter.
\<close>

theorem filter_stage_main_keeps_other_classes:
  "filter_stage_main [van_test, car_retest] = [van_test] \<and> test_class_id van_test = 7"
  by (simp add: filter_stage_main_def filter_test_type_def van_test_def car_retest_def mot_def)

section \<open>The Type Normalizer\<close>

text \<open>
  Claim C6, as the code has it. The normalizer raises exactly when some test_date cell
  holds a text that does not parse. Otherwise it returns one row for each input row, in
  the input's order, every other column as loaded, each date cell replaced by its
  timestamp; an empty cell of either column, and a first_use_date that does not parse,
  become the missing marker.
\<close>

theorem type_normalizer_outcomes:
  "(type_normalizer p t = Inl ValueError \<longleftrightarrow>
      (\<exists>r \<in> set t. \<exists>txt. csv_test_date r = Some txt \<and> p txt = None)) \<and>
   (type_normalizer p t \<noteq> Inl ValueError \<longrightarrow>
      type_normalizer p t =
        Inr (map (\<lambda>r. with_dates r
                   (case csv_test_date r of None \<Rightarrow> None | Some txt \<Rightarrow> p txt)
                   (case csv_first_use_date r of None \<Rightarrow> None | Some txt \<Rightarrow> p txt)) t))"
proof (intro conjI impI)
  show "type_normalizer p t = Inl ValueError \<longleftrightarrow>
      (\<exists>r \<in> set t. \<exists>txt. csv_test_date r = Some txt \<and> p txt = None)"
    by (rule type_normalizer_Inl)
next
  assume "type_normalizer p t \<noteq> Inl ValueError"
  then obtain t' where t': "type_normalizer p t = Inr t'"
    by (cases "type_normalizer p t") (auto dest: type_normalizer_error)
  then show "type_normalizer p t =
        Inr (map (\<lambda>r. with_dates r
                   (case csv_test_date r of None \<Rightarrow> None | Some txt \<Rightarrow> p txt)
                   (case csv_first_use_date r of None \<Rightarrow> None | Some txt \<Rightarrow> p txt)) t)"
    using type_normalizer_Inr [OF t'] by simp
qed

text \<open>A row whose first_use_date does not parse: no error, the date is missing.\<close>

theorem type_normalizer_outcomes_witness:
  "type_normalizer one_date_parser [loaded_ok] \<noteq> Inl ValueError \<and>
   type_normalizer one_date_parser [loaded_ok] =
     Inr [with_dates loaded_ok (Some (days 19052)) None]"
  using type_normalizer_outcomes [of one_date_parser "[loaded_ok]"]
  by (simp add: one_date_parser_def loaded_ok_def)

text \<open>
  The claim as first stated fails for test_date: a test_date that does not parse is not
  converted to the missing marker, the conversion raises.
\<close>

theorem type_normalizer_raises_on_test_date:
  "type_normalizer one_date_parser [loaded_ok, loaded_bad_test_date] = Inl ValueError"
  by (simp add: type_normalizer_def one_date_parser_def loaded_ok_def loaded_bad_test_date_def)

section \<open>The Feature Deriver\<close>

text \<open>
  Claim C7, as the code has it. The derived column has one cell for each row. For a row
  whose test_result holds a result code, test_result_passed is 1 exactly when the code is
  the string "P" and 0 for every other code; for a row whose test_result is missing,
  test_result_passed is missing too. The derivation has no error to return.
\<close>

theorem test_result_passed_exact:
  "length (snd (add_test_result_passed cats t)) = length t \<and>
   (\<forall>i < length t.
      (\<forall>c. test_result (t ! i) = Some c \<longrightarrow>
         (test_result_passed (snd (add_test_result_passed cats t) ! i) = Some 1 \<longleftrightarrow> c = ''P'') \<and>
         (c \<noteq> ''P'' \<longrightarrow> test_result_passed (snd (add_test_result_passed cats t) ! i) = Some 0)) \<and>
      (test_result (t ! i) = None \<longrightarrow>
         test_result_passed (snd (add_test_result_passed cats t) ! i) = None))"
  by (simp add: add_test_result_passed_rows with_passed_def passed_def)

theorem test_result_passed_exact_witness:
  "(0::nat) < length three_attempts \<and> (2::nat) < length three_attempts \<and>
   test_result (three_attempts ! 0) = Some ''P'' \<and>
   test_result_passed (snd (add_test_result_passed three_codes three_attempts) ! 0) = Some 1 \<and>
   test_result (three_attempts ! 2) = Some ''F'' \<and>
   test_result_passed (snd (add_test_result_passed three_codes three_attempts) ! 2) = Some 0"
  using test_result_passed_exact [of three_codes three_attempts]
  by (simp add: three_attempts_def mot_def)

text \<open>
  The claim as first stated fails at a row whose test_result is missing: its
  test_result_passed is not 0.
\<close>

theorem test_result_passed_of_missing_result:
  "test_result no_result \<noteq> Some ''P'' \<and>
   test_result_passed (snd (add_test_result_passed three_codes [no_result]) ! 0) = None \<and>
   test_result_passed (snd (add_test_result_passed three_codes [no_result]) ! 0) \<noteq> Some 0"
  by (simp add: add_test_result_passed_rows with_passed_def no_result_def mot_def)

text \<open>
  Claim C8, as the code has it. The subtraction raises OverflowError exactly when some
  row has both dates and their difference does not fit 64 bits (the dates lie more than
  about 292 years apart); no vehicle_age column is made then. Otherwise the derived
  column has one cell for each row: where both dates are present it is test_date minus
  first_use_date (missing for the one difference that is the least 64-bit integer), and
  where first_use_date or test_date is the missing marker it is the missing marker, so
  neither zero nor a difference from the epoch.
\<close>

theorem vehicle_age_difference:
  "(add_vehicle_age t = Inl OverflowError \<longleftrightarrow>
      (\<exists>r \<in> set t. \<exists>d f. test_date r = Some d \<and> first_use_date r = Some f \<and>
         (d - f < int64_min \<or> int64_max < d - f))) \<and>
   (add_vehicle_age t \<noteq> Inl OverflowError \<longrightarrow>
      (\<exists>t'. add_vehicle_age t = Inr t' \<and> length t' = length t \<and>
         (\<forall>i < length t.
            (\<forall>d f. test_date (t ! i) = Some d \<and> first_use_date (t ! i) = Some f \<longrightarrow>
               vehicle_age (t' ! i) = (if d - f = int64_min then None else Some (d - f))) \<and>
            (first_use_date (t ! i) = None \<longrightarrow> vehicle_age (t' ! i) = None) \<and>
            (test_date (t ! i) = None \<longrightarrow> vehicle_age (t' ! i) = None))))"
proof (intro conjI impI)
  show "add_vehicle_age t = Inl OverflowError \<longleftrightarrow>
      (\<exists>r \<in> set t. \<exists>d f. test_date r = Some d \<and> first_use_date r = Some f \<and>
         (d - f < int64_min \<or> int64_max < d - f))"
    by (simp add: add_vehicle_age_Inl timestamp_sub_overflow)
next
  assume ok: "add_vehicle_age t \<noteq> Inl OverflowError"
  obtain t' where t': "add_vehicle_age t = Inr t'"
  proof (cases "add_vehicle_age t")
    case (Inl e)
    then have "e = OverflowError" by (simp add: add_vehicle_age_Inl)
    with Inl ok show ?thesis by simp
  next
    case (Inr t')
    with that show ?thesis .
  qed
  have len: "length t' = length t"
    using t' by (rule add_vehicle_age_Inr)
  have cells: "\<forall>i < length t.
      timestamp_sub (test_date (t ! i)) (first_use_date (t ! i)) = Inr (vehicle_age (t' ! i))"
    using t' by (rule add_vehicle_age_Inr)
  have "\<forall>i < length t.
      (\<forall>d f. test_date (t ! i) = Some d \<and> first_use_date (t ! i) = Some f \<longrightarrow>
         vehicle_age (t' ! i) = (if d - f = int64_min then None else Some (d - f))) \<and>
      (first_use_date (t ! i) = None \<longrightarrow> vehicle_age (t' ! i) = None) \<and>
      (test_date (t ! i) = None \<longrightarrow> vehicle_age (t' ! i) = None)"
  proof (intro allI impI)
    fix i
    assume "i < length t"
    with cells have
      "timestamp_sub (test_date (t ! i)) (first_use_date (t ! i)) = Inr (vehicle_age (t' ! i))"
      by simp
    then show
      "(\<forall>d f. test_date (t ! i) = Some d \<and> first_use_date (t ! i) = Some f \<longrightarrow>
         vehicle_age (t' ! i) = (if d - f = int64_min then None else Some (d - f))) \<and>
       (first_use_date (t ! i) = None \<longrightarrow> vehicle_age (t' ! i) = None) \<and>
       (test_date (t ! i) = None \<longrightarrow> vehicle_age (t' ! i) = None)"
      by (auto simp: timestamp_sub_def split: option.splits if_splits)
  qed
  with t' len show "\<exists>t'. add_vehicle_age t = Inr t' \<and> length t' = length t \<and>
         (\<forall>i < length t.
            (\<forall>d f. test_date (t ! i) = Some d \<and> first_use_date (t ! i) = Some f \<longrightarrow>
               vehicle_age (t' ! i) = (if d - f = int64_min then None else Some (d - f))) \<and>
            (first_use_date (t ! i) = None \<longrightarrow> vehicle_age (t' ! i) = None) \<and>
            (test_date (t ! i) = None \<longrightarrow> vehicle_age (t' ! i) = None))"
    by blast
qed

text \<open>
  A vehicle first used 2616 days before its test, and one whose first use date is missing.
\<close>

theorem vehicle_age_difference_witness:
  "add_vehicle_age first_use_unknown \<noteq> Inl OverflowError \<and>
   (1::nat) < length first_use_unknown \<and>
   test_date (first_use_unknown ! 0) = Some (days 19052) \<and>
   first_use_date (first_use_unknown ! 0) = Some (days 16436) \<and>
   first_use_date (first_use_unknown ! 1) = None \<and>
   map_sum (\<lambda>e. e) (map vehicle_age) (add_vehicle_age first_use_unknown) =
     Inr [Some (days 2616), None]"
  using vehicle_age_difference [of first_use_unknown]
  by (simp add: first_use_unknown_def add_test_result_passed_rows with_passed_def mot_def
      add_vehicle_age_def timestamp_sub_def with_vehicle_age_def days_def int64_min_def
      int64_max_def)

text \<open>
  The claim as first stated fails at a table with a test on 2022-03-01 of a vehicle first
  used on 1700-01-01: the subtraction raises, and no row gets a vehicle_age, the row with
  a missing first_use_date included.
\<close>

theorem vehicle_age_overflow:
  "add_vehicle_age first_use_1700 = Inl OverflowError \<and>
   first_use_date (first_use_1700 ! 1) = None"
  by (simp add: first_use_1700_def add_test_result_passed_rows with_passed_def mot_def
      add_vehicle_age_def timestamp_sub_def days_def int64_min_def int64_max_def)

section \<open>The Summarizer\<close>

text \<open>
  Claim C10, as the code has it. Let the table come from a file whose result codes are
  \<open>cats\<close>. When the table has a row with a result code and the file holds at least two
  codes other than "P" (the images of its codes are not pairwise distinct), the mean of
  test_result_passed lies between 0 and 1. When the table is empty, or the file holds at
  most one code other than "P", test_result_passed is a category column and taking its
  mean raises TypeError. In the remaining case, a table none of whose rows has a result
  code, the mean is not a number.
\<close>

theorem pass_rate_bound:
  "(\<not> distinct (map passed cats) \<and> (\<exists>r \<in> set t. test_result r \<noteq> None) \<longrightarrow>
      in_unit_interval (pass_rate (add_test_result_passed cats t))) \<and>
   (t = [] \<or> distinct (map passed cats) \<longrightarrow>
      pass_rate (add_test_result_passed cats t) = Inl TypeError) \<and>
   (t \<noteq> [] \<and> \<not> distinct (map passed cats) \<and> (\<forall>r \<in> set t. test_result r = None) \<longrightarrow>
      pass_rate (add_test_result_passed cats t) = Inr None)"
proof (intro conjI impI)
  let ?xs = "present_cells (map (\<lambda>r. map_option passed (test_result r)) t)"
  assume a: "\<not> distinct (map passed cats) \<and> (\<exists>r \<in> set t. test_result r \<noteq> None)"
  then have "t \<noteq> []" by auto
  with a have dt: "fst (add_test_result_passed cats t) = Numeric"
    by (simp add: add_test_result_passed_dtype)
  from a have ne: "?xs \<noteq> []"
    by (simp add: present_passed_empty)
  then have "0 \<le> real_of_int (sum_list ?xs) / real (length ?xs) \<and>
      real_of_int (sum_list ?xs) / real (length ?xs) \<le> 1"
    using present_passed_01 by (rule quotient_01)
  with ne show "in_unit_interval (pass_rate (add_test_result_passed cats t))"
    by (simp add: in_unit_interval_def pass_rate_def mean_def dt passed_column Let_def)
next
  assume "t = [] \<or> distinct (map passed cats)"
  then have "fst (add_test_result_passed cats t) = Category"
    by (auto simp: add_test_result_passed_dtype)
  then show "pass_rate (add_test_result_passed cats t) = Inl TypeError"
    by (simp add: pass_rate_def mean_def)
next
  assume a: "t \<noteq> [] \<and> \<not> distinct (map passed cats) \<and> (\<forall>r \<in> set t. test_result r = None)"
  then have "fst (add_test_result_passed cats t) = Numeric"
    by (simp add: add_test_result_passed_dtype)
  moreover from a have
    "present_cells (map (\<lambda>r. map_option passed (test_result r)) t) = []"
    by (simp add: present_passed_empty)
  ultimately show "pass_rate (add_test_result_passed cats t) = Inr None"
    by (simp add: pass_rate_def mean_def passed_column Let_def)
qed

text \<open>Two passes in three tests, in a file with three result codes.\<close>

theorem pass_rate_bound_witness:
  "\<not> distinct (map passed three_codes) \<and>
   test_result (three_attempts ! 0) \<noteq> None \<and>
   in_unit_interval (pass_rate (add_test_result_passed three_codes three_attempts)) \<and>
   pass_rate (add_test_result_passed three_codes three_attempts) = Inr (Some (2 / 3)) \<and>
   distinct (map passed two_codes) \<and>
   pass_rate (add_test_result_passed two_codes three_attempts) = Inl TypeError"
  using pass_rate_bound [of three_codes three_attempts]
    pass_rate_bound [of two_codes three_attempts]
  by (simp add: three_attempts_def mot_def pass_rate_def mean_def passed_column
      add_test_result_passed_dtype passed_def three_codes_def two_codes_def)

text \<open>
  The claim as first stated fails at the empty table, and at the three tests of vehicle 7
  when the file holds no result code but "P" and "F": there is no mean.
\<close>

theorem pass_rate_of_empty_table:
  "\<not> in_unit_interval (pass_rate (add_test_result_passed three_codes ([] :: row list))) \<and>
   \<not> in_unit_interval (pass_rate (add_test_result_passed two_codes three_attempts))"
  by (simp add: in_unit_interval_def pass_rate_def mean_def add_test_result_passed_dtype
      passed_def two_codes_def three_attempts_def)

end
